theory Spec2Isabelle
  imports Main
begin

section \<open>JavaScript values, as far as the widget uses them\<close>

text \<open>
  The widget stores parsed JSON in its reactive state and tests it with JavaScript's
  truthiness (\<open>if (x)\<close>, \<open>a || b\<close>), so values are modelled as a datatype and not as typed
  records. Numbers are integers here: the code only ever tests a number for being zero.
  An object is the association list of its own properties.
\<close>

datatype jsval =
    JUndefined
  | JNull
  | JBool bool
  | JNum int
  | JStr string
  | JArr "jsval list"
  | JObj "(string \<times> jsval) list"

datatype js_error = TypeError | SyntaxError | NetworkFailure | RecaptchaFailure

fun js_truthy :: "jsval \<Rightarrow> bool" where
  "js_truthy JUndefined = False"
| "js_truthy JNull = False"
| "js_truthy (JBool b) = b"
| "js_truthy (JNum n) = (n \<noteq> 0)"
| "js_truthy (JStr s) = (s \<noteq> [])"
| "js_truthy (JArr xs) = True"
| "js_truthy (JObj kvs) = True"

text \<open>\<open>a || b\<close>\<close>

definition js_or :: "jsval \<Rightarrow> jsval \<Rightarrow> jsval" where
  "js_or a b = (if js_truthy a then a else b)"

text \<open>
  \<open>v.name\<close> for one of the property names the widget reads (\<open>message\<close>, \<open>approved\<close>,
  \<open>enabled\<close>, \<open>site_key\<close>): a TypeError on \<open>null\<close> and \<open>undefined\<close>, the own property of an
  object, \<open>undefined\<close> everywhere else.
\<close>

fun js_get :: "jsval \<Rightarrow> string \<Rightarrow> js_error + jsval" where
  "js_get JUndefined k = Inl TypeError"
| "js_get JNull k = Inl TypeError"
| "js_get (JObj kvs) k = (case map_of kvs k of None \<Rightarrow> Inr JUndefined | Some v \<Rightarrow> Inr v)"
| "js_get v k = Inr JUndefined"

section \<open>Strings\<close>

definition digit_char :: "nat \<Rightarrow> char" where
  "digit_char d = char_of (48 + d)"

fun decimal :: "nat \<Rightarrow> string" where
  "decimal n = (if n < 10 then [digit_char n] else decimal (n div 10) @ [digit_char (n mod 10)])"

declare decimal.simps [simp del]

definition string_of_int :: "int \<Rightarrow> string" where
  "string_of_int i = (if i < 0 then CHR ''-'' # decimal (nat (- i)) else decimal (nat i))"

text \<open>
  \<open>String.prototype.toUpperCase\<close>. A \<open>string\<close> here is a list of bytes, and the case
  mapping of the platform covers all of Unicode, so the functions that call it take the
  mapping as a parameter \<open>up\<close>. \<open>toUpperCase\<close> is that mapping on the ASCII letters, other
  bytes left alone: on ASCII text it is what every JavaScript engine computes, and the
  concrete examples use it.
\<close>

definition toUpperCase_char :: "char \<Rightarrow> char" where
  "toUpperCase_char c =
     (let n = (of_char c :: nat) in if 97 \<le> n \<and> n \<le> 122 then char_of (n - 32) else c)"

definition toUpperCase :: "string \<Rightarrow> string" where
  "toUpperCase s = map toUpperCase_char s"

section \<open>Props, reactive state, and what the widget does to the outside\<close>

text \<open>
  \<open>post_id\<close> is a String or a Number. The code reads it in two places only, inside the
  template literals of the URLs and as the value of a hidden input, and both convert it
  to a string: the prop is modelled by that string, whatever way the page passed it.

  \<open>order\<close> is what the embedding page passed, \<open>None\<close> when it passed nothing; the declared
  default \<open>'DESC'\<close> is applied by \<open>props_order\<close>.
\<close>

record props =
  post_id :: string
  endpoint :: string
  api_key :: string
  order :: "string option"

definition props_order :: "props \<Rightarrow> string" where
  "props_order p = (case order p of None \<Rightarrow> ''DESC'' | Some v \<Rightarrow> v)"

text \<open>
  The prop's validator: \<open>['ASC', 'DESC'].includes(value.toUpperCase())\<close>. Vue runs it in
  development builds and warns when it fails; the value is passed on either way.
\<close>

definition order_validator_with :: "(string \<Rightarrow> string) \<Rightarrow> string \<Rightarrow> bool" where
  "order_validator_with up v = (up v \<in> set [''ASC'', ''DESC''])"

definition order_validator :: "string \<Rightarrow> bool" where
  "order_validator = order_validator_with toUpperCase"

record reply_target =
  id' :: string
  replyTo :: string

datatype recaptcha_instance = ReCaptchaInstance jsval

record state =
  commentsData :: jsval
  loading :: bool
  submitting :: bool
  message :: jsval
  replyingTo :: "reply_target option"
  recaptchaConfig :: jsval
  recaptchaInstance :: "recaptcha_instance option"

text \<open>The refs as \<open>script setup\<close> initialises them.\<close>

definition initial_state :: state where
  "initial_state =
     \<lparr> commentsData = JNull, loading = True, submitting = False, message = JStr [],
       replyingTo = None,
       recaptchaConfig = JObj [(''enabled'', JBool False), (''site_key'', JStr [])],
       recaptchaInstance = None \<rparr>"

datatype log_arg = LogError js_error | LogNum int | LogStr string

datatype effect =
    PreventDefault
  | HttpGet string "(string \<times> string) list"
  | HttpPost string "(string \<times> string) list" jsval
  | ConsoleError string "log_arg list"
  | FormReset
  | RecaptchaLoad jsval
  | RecaptchaExecute string
  | ScrollToForm

text \<open>
  What a \<open>fetch\<close> comes back with: the promise rejects, or it resolves to a response with a
  status and a body. \<open>json\<close> is what \<open>response.json()\<close> resolves to, \<open>None\<close> when the body
  is not valid JSON and the call rejects.
\<close>

record response =
  status :: int
  statusText :: string
  json :: "jsval option"

definition ok :: "response \<Rightarrow> bool" where
  "ok r = (200 \<le> status r \<and> status r \<le> 299)"

datatype fetch_outcome = Rejected | Resolved response

section \<open>The widget with reply tracking, ordering and reCAPTCHA\<close>

text \<open>
  The source is \<open>src/unnamed/part_001\<close>; line numbers below are its lines. Every function
  takes, besides the state, what the outside world answers to the calls it makes, and
  returns the new state with the list of what it did to the outside, in order.
\<close>

definition api_root :: string where
  "api_root = ''/wp-json/headless-comments/v1''"

definition comments_url :: "props \<Rightarrow> string" where
  "comments_url p = endpoint p @ api_root @ ''/posts/'' @ post_id p @ ''/comments''"

text \<open>Line 83: \<open>props.order ? props.order.toUpperCase() : 'DESC'\<close>.\<close>

definition orderParam_with :: "(string \<Rightarrow> string) \<Rightarrow> props \<Rightarrow> string" where
  "orderParam_with up p = (if props_order p \<noteq> [] then up (props_order p) else ''DESC'')"

definition list_url_with :: "(string \<Rightarrow> string) \<Rightarrow> props \<Rightarrow> string" where
  "list_url_with up p = comments_url p @ ''?order='' @ orderParam_with up p"

definition list_request_with :: "(string \<Rightarrow> string) \<Rightarrow> props \<Rightarrow> effect" where
  "list_request_with up p = HttpGet (list_url_with up p) [(''X-API-Key'', api_key p)]"

definition orderParam :: "props \<Rightarrow> string" where
  "orderParam = orderParam_with toUpperCase"

definition list_url :: "props \<Rightarrow> string" where
  "list_url = list_url_with toUpperCase"

definition list_request :: "props \<Rightarrow> effect" where
  "list_request = list_request_with toUpperCase"

text \<open>
  \<open>fetchComments\<close> (lines 80 to 103): \<open>loading\<close> is raised, the request goes out, and the
  \<open>finally\<close> block lowers \<open>loading\<close> on every path.
\<close>

definition fetchComments_with ::
  "(string \<Rightarrow> string) \<Rightarrow> props \<Rightarrow> fetch_outcome \<Rightarrow> state \<Rightarrow> state \<times> effect list" where
  "fetchComments_with up p out s =
     (let s1 = s\<lparr>loading := True\<rparr> in
      case out of
        Rejected \<Rightarrow>
          (s1\<lparr>loading := False\<rparr>,
           [list_request_with up p, ConsoleError ''Error fetching comments:'' [LogError NetworkFailure]])
      | Resolved r \<Rightarrow>
          if ok r then
            (case json r of
               Some v \<Rightarrow> (s1\<lparr>commentsData := v, loading := False\<rparr>, [list_request_with up p])
             | None \<Rightarrow>
                 (s1\<lparr>loading := False\<rparr>,
                  [list_request_with up p, ConsoleError ''Error fetching comments:'' [LogError SyntaxError]]))
          else
            (s1\<lparr>loading := False\<rparr>,
             [list_request_with up p,
              ConsoleError ''Failed to fetch comments:'' [LogNum (status r), LogStr (statusText r)]]))"

definition fetchComments :: "props \<Rightarrow> fetch_outcome \<Rightarrow> state \<Rightarrow> state \<times> effect list" where
  "fetchComments = fetchComments_with toUpperCase"

text \<open>
  \<open>fetchRecaptchaConfig\<close> (lines 34 to 61). \<open>recaptchaConfig\<close> takes whatever JSON the server sent; the
  accesses \<open>config.enabled && config.site_key\<close> sit inside the outer \<open>try\<close>, the call of
  \<open>load\<close> inside its own.
\<close>

datatype load_outcome = LoadRejected | LoadResolved recaptcha_instance

definition config_url :: "props \<Rightarrow> string" where
  "config_url p = endpoint p @ api_root @ ''/recaptcha/config''"

definition config_request :: "props \<Rightarrow> effect" where
  "config_request p = HttpGet (config_url p) [(''X-API-Key'', api_key p)]"

definition config_error :: "js_error \<Rightarrow> effect" where
  "config_error e = ConsoleError ''Error fetching reCAPTCHA config:'' [LogError e]"

definition fetchRecaptchaConfig ::
  "props \<Rightarrow> fetch_outcome \<Rightarrow> load_outcome \<Rightarrow> state \<Rightarrow> state \<times> effect list" where
  "fetchRecaptchaConfig p out ld s =
     (case out of
        Rejected \<Rightarrow> (s, [config_request p, config_error NetworkFailure])
      | Resolved r \<Rightarrow>
          if ok r then
            (case json r of
               None \<Rightarrow> (s, [config_request p, config_error SyntaxError])
             | Some config \<Rightarrow>
                 (let s1 = s\<lparr>recaptchaConfig := config\<rparr> in
                  case js_get config ''enabled'' of
                    Inl e \<Rightarrow> (s1, [config_request p, config_error e])
                  | Inr en \<Rightarrow>
                      if \<not> js_truthy en then (s1, [config_request p])
                      else
                        (case js_get config ''site_key'' of
                           Inl e \<Rightarrow> (s1, [config_request p, config_error e])
                         | Inr sk \<Rightarrow>
                             if \<not> js_truthy sk then (s1, [config_request p])
                             else
                               (case ld of
                                  LoadRejected \<Rightarrow>
                                    (s1, [config_request p, RecaptchaLoad sk,
                                          ConsoleError ''Error loading reCAPTCHA:''
                                            [LogError RecaptchaFailure]])
                                | LoadResolved inst \<Rightarrow>
                                    (s1\<lparr>recaptchaInstance := Some inst\<rparr>,
                                     [config_request p, RecaptchaLoad sk])))))
          else (s, [config_request p]))"

text \<open>
  \<open>getRecaptchaToken\<close> (lines 64 to 77): \<open>null\<close> unless the config says enabled and an instance was loaded;
  a failing \<open>execute\<close> is logged and gives \<open>null\<close> too.
\<close>

datatype execute_outcome = ExecuteRejected | ExecuteResolved jsval

definition getRecaptchaToken ::
  "execute_outcome \<Rightarrow> state \<Rightarrow> (js_error + jsval) \<times> effect list" where
  "getRecaptchaToken ex s =
     (case js_get (recaptchaConfig s) ''enabled'' of
        Inl e \<Rightarrow> (Inl e, [])
      | Inr en \<Rightarrow>
          if \<not> js_truthy en \<or> recaptchaInstance s = None then (Inr JNull, [])
          else
            (case ex of
               ExecuteRejected \<Rightarrow>
                 (Inr JNull,
                  [RecaptchaExecute ''submit_comment'',
                   ConsoleError ''Error getting reCAPTCHA token:'' [LogError RecaptchaFailure]])
             | ExecuteResolved token \<Rightarrow> (Inr token, [RecaptchaExecute ''submit_comment''])))"

subsection \<open>The form\<close>

text \<open>
  A submit event carries the form; \<open>new FormData(event.target)\<close> is its list of entries,
  every value a string. \<open>formData.get\<close> gives the first entry of that name, or \<open>null\<close>.
\<close>

type_synonym form = "(string \<times> string) list"

definition formData_get :: "form \<Rightarrow> string \<Rightarrow> jsval" where
  "formData_get f name = (case map_of f name of None \<Rightarrow> JNull | Some v \<Rightarrow> JStr v)"

definition commentData :: "form \<Rightarrow> (string \<times> jsval) list" where
  "commentData f =
     [(''author_name'', formData_get f ''author_name''),
      (''author_email'', formData_get f ''author_email''),
      (''content'', formData_get f ''content''),
      (''parent'', js_or (formData_get f ''comment_parent'') (JNum 0))]"

definition create_request :: "props \<Rightarrow> (string \<times> jsval) list \<Rightarrow> effect" where
  "create_request p cd =
     HttpPost (comments_url p)
       [(''Content-Type'', ''application/json''), (''X-API-Key'', api_key p)] (JObj cd)"

definition is_create_request :: "props \<Rightarrow> effect \<Rightarrow> bool" where
  "is_create_request p e = (case e of HttpPost u h b \<Rightarrow> u = comments_url p | _ \<Rightarrow> False)"

subsection \<open>submitComment\<close>

definition recaptcha_failed_text :: string where
  "recaptcha_failed_text = ''Failed to verify reCAPTCHA. Please try again.''"

definition submit_error_text :: string where
  "submit_error_text = ''Error submitting comment. Please try again.''"

definition submit_success_text :: string where
  "submit_success_text = ''Comment submitted successfully!''"

text \<open>The \<open>catch\<close> block followed by the \<open>finally\<close> block.\<close>

definition submit_catch :: "js_error \<Rightarrow> state \<Rightarrow> effect list \<Rightarrow> state \<times> effect list" where
  "submit_catch e s effs =
     (s\<lparr>message := JStr submit_error_text, submitting := False\<rparr>,
      effs @ [ConsoleError ''Submit error:'' [LogError e]])"

text \<open>
  \<open>submitComment\<close> (lines 116 to 177) is an async function; it is split where it waits for the create
  endpoint. \<open>submitComment_begin\<close> runs from the submit event to the moment the POST has
  been sent (the flag in the result says whether one is now in flight), and
  \<open>submitComment_resume\<close> runs from the arrival of the answer to the end.
\<close>

definition finished :: "state \<times> effect list \<Rightarrow> state \<times> effect list \<times> bool" where
  "finished r = (fst r, snd r, False)"

definition submitComment_begin ::
  "props \<Rightarrow> form \<Rightarrow> execute_outcome \<Rightarrow> state \<Rightarrow> state \<times> effect list \<times> bool" where
  "submitComment_begin p f ex s =
     (let s1 = s\<lparr>submitting := True, message := JStr []\<rparr>;
          cd = commentData f in
      case js_get (recaptchaConfig s1) ''enabled'' of
        Inl e \<Rightarrow> finished (submit_catch e s1 [PreventDefault])
      | Inr en \<Rightarrow>
          if js_truthy en then
            (case getRecaptchaToken ex s1 of
               (Inl e, effs) \<Rightarrow> finished (submit_catch e s1 (PreventDefault # effs))
             | (Inr token, effs) \<Rightarrow>
                 if js_truthy token then
                   (s1, PreventDefault # effs @
                          [create_request p (cd @ [(''recaptcha_token'', token)])], True)
                 else
                   (s1\<lparr>message := JStr recaptcha_failed_text, submitting := False\<rparr>
                      \<lparr>submitting := False\<rparr>,
                    PreventDefault # effs, False))
          else (s1, [PreventDefault, create_request p cd], True))"

definition submitComment_resume ::
  "props \<Rightarrow> fetch_outcome \<Rightarrow> fetch_outcome \<Rightarrow> state \<Rightarrow> state \<times> effect list" where
  "submitComment_resume p post_out list_out s =
     (case post_out of
        Rejected \<Rightarrow> submit_catch NetworkFailure s []
      | Resolved r \<Rightarrow>
          if ok r then
            (case json r of
               None \<Rightarrow> submit_catch SyntaxError s []
             | Some result \<Rightarrow>
                 (case js_get result ''message'' of
                    Inl e \<Rightarrow> submit_catch e s []
                  | Inr m \<Rightarrow>
                      (let s2 = s\<lparr>message := js_or m (JStr submit_success_text),
                                  replyingTo := None\<rparr> in
                       case js_get result ''approved'' of
                         Inl e \<Rightarrow> submit_catch e s2 [FormReset]
                       | Inr a \<Rightarrow>
                           if js_truthy a then
                             (let (s3, effs) = fetchComments p list_out s2
                              in (s3\<lparr>submitting := False\<rparr>, FormReset # effs))
                           else (s2\<lparr>submitting := False\<rparr>, [FormReset]))))
          else
            (case json r of
               None \<Rightarrow> submit_catch SyntaxError s []
             | Some error \<Rightarrow>
                 (case js_get error ''message'' of
                    Inl e \<Rightarrow> submit_catch e s []
                  | Inr m \<Rightarrow>
                      (s\<lparr>message := js_or m (JStr submit_error_text), submitting := False\<rparr>,
                       []))))"

definition submitComment ::
  "props \<Rightarrow> form \<Rightarrow> execute_outcome \<Rightarrow> fetch_outcome \<Rightarrow> fetch_outcome \<Rightarrow> state
     \<Rightarrow> state \<times> effect list" where
  "submitComment p f ex post_out list_out s =
     (case submitComment_begin p f ex s of
        (s1, effs, in_flight) \<Rightarrow>
          if in_flight then
            (let (s2, effs2) = submitComment_resume p post_out list_out s1
             in (s2, effs @ effs2))
          else (s1, effs))"

subsection \<open>Reply tracking\<close>

text \<open>
  \<open>handleReplyClick\<close> and \<open>cancelReply\<close> (lines 180 to 209).
  A reply link of the rendered markup, by the two attributes the handler reads;
  \<open>getAttribute\<close> gives \<open>null\<close> (\<open>None\<close>) for an attribute that is not there.
\<close>

record reply_link =
  data_commentid :: "string option"
  data_replyto :: "string option"

definition handleReplyClick :: "reply_link \<Rightarrow> state \<Rightarrow> state \<times> effect list" where
  "handleReplyClick link s =
     (case data_commentid link of
        None \<Rightarrow> (s, [PreventDefault])
      | Some commentId \<Rightarrow>
          if commentId = [] then (s, [PreventDefault])
          else
            (s\<lparr>replyingTo := Some
                 \<lparr> id' = commentId,
                   replyTo = (case data_replyto link of
                                None \<Rightarrow> ''Comment #'' @ commentId
                              | Some replyToText \<Rightarrow>
                                  if replyToText = [] then ''Comment #'' @ commentId
                                  else replyToText) \<rparr>\<rparr>,
             [PreventDefault, ScrollToForm]))"

definition cancelReply :: "state \<Rightarrow> state" where
  "cancelReply s = s\<lparr>replyingTo := None\<rparr>"

subsection \<open>The template\<close>

text \<open>
  The form of the template (lines 267 to 291).
  The hidden input \<open>comment_parent\<close> is bound to \<open>replyingTo?.id || 0\<close>. An input's value
  is a string, so the number \<open>0\<close> is in the form as the text \<open>0\<close>.
\<close>

definition comment_parent_value :: "state \<Rightarrow> string" where
  "comment_parent_value s =
     (case replyingTo s of
        None \<Rightarrow> string_of_int 0
      | Some r \<Rightarrow> if id' r = [] then string_of_int 0 else id' r)"

text \<open>
  What the three visible fields hold when the form is submitted. The browser's own checks
  (\<open>required\<close>, \<open>type="email"\<close>) can only keep a submit event from being raised and are
  not modelled: every input is taken to be one the browser lets through.
\<close>

record visitor_input =
  author_name :: string
  author_email :: string
  content :: string

definition commentform :: "props \<Rightarrow> state \<Rightarrow> visitor_input \<Rightarrow> form" where
  "commentform p s v =
     [(''comment_post_ID'', post_id p),
      (''comment_parent'', comment_parent_value s),
      (''author_name'', author_name v),
      (''author_email'', author_email v),
      (''content'', content v)]"

text \<open>The submit button carries \<open>:disabled="submitting"\<close>.\<close>

definition submit_disabled :: "state \<Rightarrow> bool" where
  "submit_disabled s = submitting s"

text \<open>
  Activating the submit control: a disabled button submits nothing, an enabled one
  raises the form's submit event, which runs \<open>submitComment\<close> up to its request.
\<close>

definition activate_submit ::
  "props \<Rightarrow> visitor_input \<Rightarrow> execute_outcome \<Rightarrow> state \<Rightarrow> state \<times> effect list \<times> bool" where
  "activate_submit p v ex s =
     (if submit_disabled s then (s, [], False)
      else submitComment_begin p (commentform p s v) ex s)"

text \<open>
  What a visitor can do to the widget while it is shown: click a reply link of the
  rendered comments, click the cancel link (bound with \<open>@click.prevent\<close>), activate the
  submit control.
\<close>

datatype ui_event =
    ClickReply reply_link
  | ClickCancel
  | ActivateSubmit visitor_input execute_outcome

fun ui_step :: "props \<Rightarrow> ui_event \<Rightarrow> state \<Rightarrow> state \<times> effect list" where
  "ui_step p (ClickReply link) s = handleReplyClick link s"
| "ui_step p ClickCancel s = (cancelReply s, [PreventDefault])"
| "ui_step p (ActivateSubmit v ex) s =
     (fst (activate_submit p v ex s), fst (snd (activate_submit p v ex s)))"

fun ui_run :: "props \<Rightarrow> ui_event list \<Rightarrow> state \<Rightarrow> state \<times> effect list" where
  "ui_run p [] s = (s, [])"
| "ui_run p (ev # evs) s =
     (fst (ui_run p evs (fst (ui_step p ev s))),
      snd (ui_step p ev s) @ snd (ui_run p evs (fst (ui_step p ev s))))"

text \<open>The parent field of the request a submission sends, if it sends one.\<close>

fun parent_of :: "effect \<Rightarrow> jsval option" where
  "parent_of (HttpPost u h (JObj cd)) = map_of cd ''parent''"
| "parent_of e = None"

definition sent_parent :: "effect list \<Rightarrow> jsval option" where
  "sent_parent effs = (case filter (\<lambda>e. parent_of e \<noteq> None) effs of
                         [] \<Rightarrow> None | e # _ \<Rightarrow> parent_of e)"

subsection \<open>Mounting\<close>

text \<open>
  Lines 229 to 232:
  \<open>onMounted(async () => { await fetchRecaptchaConfig(); await fetchComments(); })\<close>
\<close>

definition onMounted ::
  "props \<Rightarrow> fetch_outcome \<Rightarrow> load_outcome \<Rightarrow> fetch_outcome \<Rightarrow> state \<Rightarrow> state \<times> effect list" where
  "onMounted p cfg_out ld list_out s =
     (let (s1, effs1) = fetchRecaptchaConfig p cfg_out ld s;
          (s2, effs2) = fetchComments p list_out s1
      in (s2, effs1 @ effs2))"

section \<open>The plain widget (components/VueComments.vue)\<close>

text \<open>
  The same two functions without ordering, reply tracking and reCAPTCHA:
  \<open>fetchComments\<close> (lines 12 to 33 of that file) does not raise \<open>loading\<close> first, and
  \<open>submitComment\<close> (lines 36 to 81) reads the form field \<open>parent\<close>.
\<close>

record vc_state =
  vc_comments :: jsval
  vc_loading :: bool
  vc_submitting :: bool
  vc_message :: jsval

definition vc_initial_state :: vc_state where
  "vc_initial_state =
     \<lparr> vc_comments = JArr [], vc_loading = True, vc_submitting = False, vc_message = JStr [] \<rparr>"

definition vc_list_request :: "props \<Rightarrow> effect" where
  "vc_list_request p = HttpGet (comments_url p) [(''X-API-Key'', api_key p)]"

definition vc_fetchComments :: "props \<Rightarrow> fetch_outcome \<Rightarrow> vc_state \<Rightarrow> vc_state \<times> effect list" where
  "vc_fetchComments p out s =
     (case out of
        Rejected \<Rightarrow>
          (s\<lparr>vc_loading := False\<rparr>,
           [vc_list_request p, ConsoleError ''Error fetching comments:'' [LogError NetworkFailure]])
      | Resolved r \<Rightarrow>
          if ok r then
            (case json r of
               Some v \<Rightarrow> (s\<lparr>vc_comments := v, vc_loading := False\<rparr>, [vc_list_request p])
             | None \<Rightarrow>
                 (s\<lparr>vc_loading := False\<rparr>,
                  [vc_list_request p,
                   ConsoleError ''Error fetching comments:'' [LogError SyntaxError]]))
          else
            (s\<lparr>vc_loading := False\<rparr>,
             [vc_list_request p,
              ConsoleError ''Failed to fetch comments:'' [LogNum (status r), LogStr (statusText r)]]))"

definition vc_commentData :: "form \<Rightarrow> (string \<times> jsval) list" where
  "vc_commentData f =
     [(''author_name'', formData_get f ''author_name''),
      (''author_email'', formData_get f ''author_email''),
      (''content'', formData_get f ''content''),
      (''parent'', js_or (formData_get f ''parent'') (JNum 0))]"

definition vc_submit_catch ::
  "js_error \<Rightarrow> vc_state \<Rightarrow> effect list \<Rightarrow> vc_state \<times> effect list" where
  "vc_submit_catch e s effs =
     (s\<lparr>vc_message := JStr submit_error_text, vc_submitting := False\<rparr>,
      effs @ [ConsoleError ''Submit error:'' [LogError e]])"

definition vc_submitComment ::
  "props \<Rightarrow> form \<Rightarrow> fetch_outcome \<Rightarrow> fetch_outcome \<Rightarrow> vc_state \<Rightarrow> vc_state \<times> effect list" where
  "vc_submitComment p f post_out list_out s =
     (let s1 = s\<lparr>vc_submitting := True, vc_message := JStr []\<rparr>;
          sent = [PreventDefault, create_request p (vc_commentData f)] in
      case post_out of
        Rejected \<Rightarrow> vc_submit_catch NetworkFailure s1 sent
      | Resolved r \<Rightarrow>
          if ok r then
            (case json r of
               None \<Rightarrow> vc_submit_catch SyntaxError s1 sent
             | Some result \<Rightarrow>
                 (case js_get result ''message'' of
                    Inl e \<Rightarrow> vc_submit_catch e s1 sent
                  | Inr m \<Rightarrow>
                      (let s2 = s1\<lparr>vc_message := js_or m (JStr submit_success_text)\<rparr> in
                       case js_get result ''approved'' of
                         Inl e \<Rightarrow> vc_submit_catch e s2 (sent @ [FormReset])
                       | Inr a \<Rightarrow>
                           if js_truthy a then
                             (let (s3, effs) = vc_fetchComments p list_out s2
                              in (s3\<lparr>vc_submitting := False\<rparr>, sent @ FormReset # effs))
                           else (s2\<lparr>vc_submitting := False\<rparr>, sent @ [FormReset]))))
          else
            (case json r of
               None \<Rightarrow> vc_submit_catch SyntaxError s1 sent
             | Some error \<Rightarrow>
                 (case js_get error ''message'' of
                    Inl e \<Rightarrow> vc_submit_catch e s1 sent
                  | Inr m \<Rightarrow>
                      (s1\<lparr>vc_message := js_or m (JStr submit_error_text),
                          vc_submitting := False\<rparr>,
                       sent))))"

section \<open>Observing requests\<close>

definition is_list_request :: "props \<Rightarrow> effect \<Rightarrow> bool" where
  "is_list_request p e = (case e of HttpGet u h \<Rightarrow> u = list_url p | _ \<Rightarrow> False)"

definition vc_is_list_request :: "props \<Rightarrow> effect \<Rightarrow> bool" where
  "vc_is_list_request p e = (case e of HttpGet u h \<Rightarrow> u = comments_url p | _ \<Rightarrow> False)"

definition refetches :: "props \<Rightarrow> effect list \<Rightarrow> nat" where
  "refetches p effs = length (filter (is_list_request p) effs)"

definition vc_refetches :: "props \<Rightarrow> effect list \<Rightarrow> nat" where
  "vc_refetches p effs = length (filter (vc_is_list_request p) effs)"

definition is_log :: "effect \<Rightarrow> bool" where
  "is_log e = (case e of ConsoleError l as \<Rightarrow> True | _ \<Rightarrow> False)"

text \<open>A fetch that ends in a network failure or in a response whose status is not a success.\<close>

definition fetch_failed :: "fetch_outcome \<Rightarrow> bool" where
  "fetch_failed out = (case out of Rejected \<Rightarrow> True | Resolved r \<Rightarrow> \<not> ok r)"

text \<open>
  The \<open>order\<close> prop passes its validator. Vue validates the resolved value, which is the
  default when the page passed nothing.
\<close>

definition order_prop_valid_with :: "(string \<Rightarrow> string) \<Rightarrow> props \<Rightarrow> bool" where
  "order_prop_valid_with up p = order_validator_with up (props_order p)"

text \<open>A field of a parsed object, \<open>undefined\<close> when the object has none of that name.\<close>

definition js_field :: "(string \<times> jsval) list \<Rightarrow> string \<Rightarrow> jsval" where
  "js_field kvs k = (case map_of kvs k of None \<Rightarrow> JUndefined | Some v \<Rightarrow> v)"

section \<open>Concrete data for the examples\<close>

definition demo_props :: props where
  "demo_props =
     \<lparr> post_id = ''7'', endpoint = ''https://example.org'', api_key = ''k'',
       order = Some ''asc'' \<rparr>"

definition newest_props :: props where
  "newest_props = demo_props\<lparr>order := Some ''newest''\<rparr>"

definition demo_input :: visitor_input where
  "demo_input =
     \<lparr> author_name = ''Jane'', author_email = ''jane@example.org'', content = ''Hello'' \<rparr>"

definition demo_form :: form where
  "demo_form = commentform demo_props initial_state demo_input"

definition demo_vc_form :: form where
  "demo_vc_form =
     [(''author_name'', ''Jane''), (''author_email'', ''jane@example.org''),
      (''content'', ''Hello''), (''parent'', ''0'')]"

definition demo_link :: reply_link where
  "demo_link = \<lparr> data_commentid = Some ''42'', data_replyto = Some ''Reply to Jane'' \<rparr>"

text \<open>A state in which the server has switched reCAPTCHA on but no instance was loaded.\<close>

definition demo_enabled_state :: state where
  "demo_enabled_state =
     initial_state\<lparr> loading := False,
       recaptchaConfig := JObj [(''enabled'', JBool True), (''site_key'', JStr ''site'')] \<rparr>"

definition response_approved :: response where
  "response_approved =
     \<lparr> status = 200, statusText = ''OK'',
       json = Some (JObj [(''message'', JStr ''Comment posted''), (''approved'', JBool True)]) \<rparr>"

definition response_pending :: response where
  "response_pending =
     \<lparr> status = 200, statusText = ''OK'',
       json = Some (JObj [(''message'', JStr ''Comment awaiting moderation'')]) \<rparr>"

definition response_empty_confirmation :: response where
  "response_empty_confirmation =
     \<lparr> status = 200, statusText = ''OK'',
       json = Some (JObj [(''message'', JStr []), (''approved'', JBool False)]) \<rparr>"

definition response_duplicate :: response where
  "response_duplicate =
     \<lparr> status = 409, statusText = ''Conflict'',
       json = Some (JObj [(''message'', JStr ''Duplicate comment detected'')]) \<rparr>"

definition response_empty_error :: response where
  "response_empty_error =
     \<lparr> status = 400, statusText = ''Bad Request'', json = Some (JObj [(''message'', JStr [])]) \<rparr>"

definition response_html_error :: response where
  "response_html_error =
     \<lparr> status = 502, statusText = ''Bad Gateway'', json = None \<rparr>"

definition response_comments :: response where
  "response_comments =
     \<lparr> status = 200, statusText = ''OK'',
       json = Some (JObj [(''count'', JNum 1), (''rendered'', JStr ''<li>Hi</li>'')]) \<rparr>"

definition response_config_enabled :: response where
  "response_config_enabled =
     \<lparr> status = 200, statusText = ''OK'',
       json = Some (JObj [(''enabled'', JBool True), (''site_key'', JStr ''site'')]) \<rparr>"

definition in_flight_state :: state where
  "in_flight_state = initial_state\<lparr>submitting := True, message := JStr []\<rparr>"

section \<open>Properties\<close>

subsection \<open>Auxiliary facts\<close>

lemma getRecaptchaToken_frame [simp]:
  "getRecaptchaToken ex (s\<lparr>submitting := a, message := b\<rparr>) = getRecaptchaToken ex s"
  by (simp add: getRecaptchaToken_def split: sum.splits)

lemma begin_in_flight_state:
  assumes "submitComment_begin p f ex s = (s1, effs, True)"
  shows "s1 = s\<lparr>submitting := True, message := JStr []\<rparr>"
  using assms
  by (auto simp: submitComment_begin_def finished_def submit_catch_def Let_def
           split: sum.splits if_splits prod.splits)

lemma begin_effects:
  "e \<in> set (fst (snd (submitComment_begin p f ex s))) \<Longrightarrow>
     e = PreventDefault \<or> (\<exists>a. e = RecaptchaExecute a) \<or> (\<exists>l as. e = ConsoleError l as)
     \<or> (\<exists>cd. e = create_request p cd)"
  by (auto simp: submitComment_begin_def finished_def submit_catch_def Let_def getRecaptchaToken_def
           split: sum.splits if_splits prod.splits execute_outcome.splits)

lemma begin_no_reset: "FormReset \<notin> set (fst (snd (submitComment_begin p f ex s)))"
  using begin_effects [of FormReset p f ex s] by (auto simp: create_request_def)

lemma begin_no_list_request:
  "filter (is_list_request p) (fst (snd (submitComment_begin p f ex s))) = []"
  by (auto simp: filter_empty_conv is_list_request_def list_request_with_def create_request_def
           dest!: begin_effects)

lemma begin_sent_parent:
  assumes "submitComment_begin p f ex s = (s1, effs, True)"
  shows "sent_parent effs = Some (js_or (formData_get f ''comment_parent'') (JNum 0))"
  using assms
  by (auto simp: submitComment_begin_def finished_def submit_catch_def Let_def getRecaptchaToken_def
                 create_request_def sent_parent_def commentData_def
           split: sum.splits if_splits prod.splits execute_outcome.splits)

lemma submitComment_in_flight:
  assumes "submitComment_begin p f ex s = (s1, effs, True)"
  shows "submitComment p f ex post_out list_out s =
           (fst (submitComment_resume p post_out list_out s1),
            effs @ snd (submitComment_resume p post_out list_out s1))"
  using assms by (simp add: submitComment_def split: prod.splits)

lemma fetchComments_loading: "\<not> loading (fst (fetchComments p out s))"
  by (simp add: fetchComments_def fetchComments_with_def list_request_def list_url_def Let_def split: fetch_outcome.splits option.splits)

lemma fetchComments_submitting: "submitting (fst (fetchComments p out s)) = submitting s"
  by (simp add: fetchComments_def fetchComments_with_def list_request_def list_url_def Let_def split: fetch_outcome.splits option.splits)

lemma fetchComments_message: "message (fst (fetchComments p out s)) = message s"
  by (simp add: fetchComments_def fetchComments_with_def list_request_def list_url_def Let_def split: fetch_outcome.splits option.splits)

lemma fetchComments_requests:
  "filter (is_list_request p) (snd (fetchComments p out s)) = [list_request p]"
  by (simp add: fetchComments_def fetchComments_with_def list_request_def list_url_def Let_def is_list_request_def list_request_with_def list_request_def list_request_with_def
           split: fetch_outcome.splits option.splits)

lemma resume_submitting: "\<not> submitting (fst (submitComment_resume p post_out list_out s))"
  by (auto simp: submitComment_resume_def submit_catch_def Let_def fetchComments_submitting
           split: fetch_outcome.splits option.splits sum.splits prod.splits)

lemma begin_not_in_flight_submitting:
  "\<not> snd (snd (submitComment_begin p f ex s)) \<Longrightarrow>
     \<not> submitting (fst (submitComment_begin p f ex s))"
  by (auto simp: submitComment_begin_def finished_def submit_catch_def Let_def
           split: sum.splits if_splits prod.splits)

lemma submitComment_submitting: "\<not> submitting (fst (submitComment p f ex post_out list_out s))"
proof (cases "submitComment_begin p f ex s")
  case (fields s1 effs fl)
  show ?thesis
  proof (cases fl)
    case True
    with fields show ?thesis
      by (simp add: submitComment_in_flight resume_submitting)
  next
    case False
    with fields begin_not_in_flight_submitting [of p f ex s] show ?thesis
      by (simp add: submitComment_def)
  qed
qed

lemma vc_fetchComments_loading: "\<not> vc_loading (fst (vc_fetchComments p out s))"
  by (simp add: vc_fetchComments_def split: fetch_outcome.splits option.splits)

lemma vc_fetchComments_submitting:
  "vc_submitting (fst (vc_fetchComments p out s)) = vc_submitting s"
  by (simp add: vc_fetchComments_def split: fetch_outcome.splits option.splits)

lemma vc_submitComment_submitting:
  "\<not> vc_submitting (fst (vc_submitComment p f post_out list_out s))"
  by (auto simp: vc_submitComment_def vc_submit_catch_def Let_def vc_fetchComments_submitting
           split: fetch_outcome.splits option.splits sum.splits prod.splits)

lemma fetchComments_replyingTo: "replyingTo (fst (fetchComments p out s)) = replyingTo s"
  by (simp add: fetchComments_def fetchComments_with_def list_request_def list_url_def Let_def split: fetch_outcome.splits option.splits)

lemma vc_fetchComments_requests:
  "filter (vc_is_list_request p) (snd (vc_fetchComments p out s)) = [vc_list_request p]"
  by (simp add: vc_fetchComments_def vc_is_list_request_def list_request_with_def vc_list_request_def
           split: fetch_outcome.splits option.splits)

lemma vc_fetchComments_message: "vc_message (fst (vc_fetchComments p out s)) = vc_message s"
  by (simp add: vc_fetchComments_def split: fetch_outcome.splits option.splits)

lemma js_get_obj: "js_get (JObj kvs) k = Inr (js_field kvs k)"
  by (simp add: js_field_def split: option.splits)

lemma string_of_int_0: "string_of_int 0 = ''0''"
  by code_simp

lemma toUpperCase_Nil: "toUpperCase [] = []"
  by (simp add: toUpperCase_def)

lemma toUpperCase_DESC: "toUpperCase ''DESC'' = ''DESC''"
  by code_simp

lemma demo_begin:
  "submitComment_begin demo_props demo_form ExecuteRejected initial_state =
     (in_flight_state,
      [PreventDefault, create_request demo_props (commentData demo_form)], True)"
  by (simp add: submitComment_begin_def finished_def initial_state_def in_flight_state_def Let_def)

subsection \<open>Re-entry\<close>

text \<open>
  Claim C1, as stated: while \<open>submitting\<close> is true a second call of \<open>submitComment\<close> is a
  no-op and sends no second create request. The function does not look at the flag: it
  raises it and goes on. In the state a first submission leaves while its request is in
  flight, a second call sends the create request again.
\<close>

theorem submitComment_reentry_counterexample:
  "submitComment_begin demo_props demo_form ExecuteRejected initial_state =
     (in_flight_state,
      [PreventDefault, create_request demo_props (commentData demo_form)], True)
   \<and> submitting in_flight_state
   \<and> submitComment_begin demo_props demo_form ExecuteRejected in_flight_state =
       (in_flight_state,
        [PreventDefault, create_request demo_props (commentData demo_form)], True)"
  by (simp add: submitComment_begin_def finished_def initial_state_def in_flight_state_def Let_def)

lemma ui_step_while_submitting:
  assumes "submitting s"
  shows "submitting (fst (ui_step p ev s))"
    and "filter (is_create_request p) (snd (ui_step p ev s)) = []"
  using assms
  by (cases ev;
      simp add: handleReplyClick_def cancelReply_def activate_submit_def submit_disabled_def
                is_create_request_def split: option.splits)+

lemma ui_run_while_submitting:
  "submitting s \<Longrightarrow>
     submitting (fst (ui_run p evs s)) \<and> filter (is_create_request p) (snd (ui_run p evs s)) = []"
proof (induction evs arbitrary: s)
  case Nil
  then show ?case by simp
next
  case (Cons ev evs)
  from Cons.prems have step: "submitting (fst (ui_step p ev s))"
      "filter (is_create_request p) (snd (ui_step p ev s)) = []"
    by (rule ui_step_while_submitting)+
  from Cons.IH [OF step(1)] step(2) show ?case by simp
qed

text \<open>
  Claim C1, amended: the guard is the submit control. Once a submission has sent its
  request, \<open>submitting\<close> is true and the control is disabled; activating the control in
  that state changes nothing and sends nothing; whatever the visitor does before the
  answer arrives (reply clicks, cancel, more attempts to submit), \<open>submitting\<close> stays true
  and no create request goes out; and the answer to the first request lowers the flag
  again.
\<close>

theorem submit_control_guard:
  assumes "submitComment_begin p f ex s = (s1, effs, True)"
  shows "submitting s1 \<and> submit_disabled s1
         \<and> activate_submit p v ex' s1 = (s1, [], False)
         \<and> submitting (fst (ui_run p evs s1))
         \<and> filter (is_create_request p) (snd (ui_run p evs s1)) = []
         \<and> \<not> submitting (fst (submitComment_resume p post_out list_out (fst (ui_run p evs s1))))"
proof -
  have s1: "submitting s1"
    using begin_in_flight_state [OF assms] by simp
  then have "activate_submit p v ex' s1 = (s1, [], False)"
    by (simp add: activate_submit_def submit_disabled_def)
  with s1 ui_run_while_submitting [OF s1, of p evs] resume_submitting show ?thesis
    by (simp add: submit_disabled_def)
qed

theorem submit_control_guard_witness:
  "submitComment_begin demo_props demo_form ExecuteRejected initial_state =
     (in_flight_state,
      [PreventDefault, create_request demo_props (commentData demo_form)], True)
   \<and> activate_submit demo_props demo_input ExecuteRejected in_flight_state =
       (in_flight_state, [], False)
   \<and> filter (is_create_request demo_props)
        (snd (ui_run demo_props
               [ClickReply demo_link, ActivateSubmit demo_input ExecuteRejected, ClickCancel]
               in_flight_state)) = []"
  using submit_control_guard [OF demo_begin, of demo_input ExecuteRejected
          "[ClickReply demo_link, ActivateSubmit demo_input ExecuteRejected, ClickCancel]"
          Rejected Rejected]
        demo_begin
  by simp

subsection \<open>The token gate\<close>

text \<open>
  Claim C2. With reCAPTCHA enabled and no token obtained (\<open>getRecaptchaToken\<close> gives
  \<open>null\<close>, or a value that is not truthy), \<open>submitComment\<close> ends with the fixed local text
  in \<open>message\<close> and \<open>submitting\<close> lowered, every other ref as it was; started from an idle
  state (\<open>submitting\<close> false, the only state in which the control raises a submit event)
  the message is the only change. Its effects are the \<open>preventDefault\<close> and those of the
  token acquisition: no request to the create endpoint.
\<close>

theorem recaptcha_token_gate:
  assumes "js_get (recaptchaConfig s) ''enabled'' = Inr en" and "js_truthy en"
    and "fst (getRecaptchaToken ex s) = Inr token" and "\<not> js_truthy token"
  shows "fst (submitComment p f ex post_out list_out s) =
           s\<lparr>message := JStr ''Failed to verify reCAPTCHA. Please try again.'',
              submitting := False\<rparr>
         \<and> (\<not> submitting s \<longrightarrow>
              fst (submitComment p f ex post_out list_out s) =
                s\<lparr>message := JStr ''Failed to verify reCAPTCHA. Please try again.''\<rparr>)
         \<and> snd (submitComment p f ex post_out list_out s) =
             PreventDefault # snd (getRecaptchaToken ex s)
         \<and> filter (is_create_request p) (snd (submitComment p f ex post_out list_out s)) = []"
proof -
  obtain effs where tok: "getRecaptchaToken ex s = (Inr token, effs)"
    using assms(3) by (cases "getRecaptchaToken ex s") simp
  have beg: "submitComment_begin p f ex s =
          (s\<lparr>message := JStr recaptcha_failed_text, submitting := False\<rparr>,
           PreventDefault # effs, False)"
    using assms(1,2,4) tok by (simp add: submitComment_begin_def finished_def Let_def)
  have full: "submitComment p f ex post_out list_out s =
          (s\<lparr>message := JStr recaptcha_failed_text, submitting := False\<rparr>,
           PreventDefault # effs)"
    by (simp add: submitComment_def beg)
  have nocreate: "\<forall>e\<in>set effs. \<not> is_create_request p e"
    using tok by (auto simp: getRecaptchaToken_def is_create_request_def
                       split: sum.splits if_splits execute_outcome.splits)
  have idle: "\<not> submitting s \<longrightarrow>
       s\<lparr>message := JStr recaptcha_failed_text, submitting := False\<rparr> =
       s\<lparr>message := JStr recaptcha_failed_text\<rparr>"
    by simp
  show ?thesis
    using full tok nocreate idle
    by (simp add: recaptcha_failed_text_def is_create_request_def filter_empty_conv)
qed

theorem recaptcha_token_gate_witness:
  "js_get (recaptchaConfig demo_enabled_state) ''enabled'' = Inr (JBool True)
   \<and> getRecaptchaToken ExecuteRejected demo_enabled_state = (Inr JNull, [])
   \<and> submitComment demo_props demo_form ExecuteRejected (Resolved response_approved)
        (Resolved response_comments) demo_enabled_state =
       (demo_enabled_state\<lparr>message := JStr ''Failed to verify reCAPTCHA. Please try again.''\<rparr>,
        [PreventDefault])"
  using recaptcha_token_gate [of demo_enabled_state "JBool True" ExecuteRejected JNull
           demo_props demo_form "Resolved response_approved" "Resolved response_comments"]
  by (simp add: demo_enabled_state_def initial_state_def getRecaptchaToken_def prod_eq_iff)

subsection \<open>Successful submissions\<close>

lemma resume_ok:
  assumes "ok r" and "json r = Some (JObj result)"
  shows "refetches p (snd (submitComment_resume p (Resolved r) list_out s1)) =
           (if js_truthy (js_field result ''approved'') then 1 else 0)"
    and "message (fst (submitComment_resume p (Resolved r) list_out s1)) =
           js_or (js_field result ''message'') (JStr submit_success_text)"
    and "replyingTo (fst (submitComment_resume p (Resolved r) list_out s1)) = None"
  using assms fetchComments_requests [of p list_out]
        fetchComments_message [of p list_out] fetchComments_replyingTo [of p list_out]
  by (auto simp: submitComment_resume_def js_get_obj Let_def refetches_def is_list_request_def list_request_with_def
                 case_prod_beta
           simp del: js_get.simps)

lemma vc_submit_ok:
  assumes "ok r" and "json r = Some (JObj result)"
  shows "vc_refetches p (snd (vc_submitComment p f (Resolved r) list_out vs)) =
           (if js_truthy (js_field result ''approved'') then 1 else 0)"
    and "vc_message (fst (vc_submitComment p f (Resolved r) list_out vs)) =
           js_or (js_field result ''message'') (JStr submit_success_text)"
  using assms vc_fetchComments_requests [of p list_out]
        vc_fetchComments_message [of p list_out]
  by (auto simp: vc_submitComment_def js_get_obj Let_def vc_refetches_def vc_is_list_request_def list_request_with_def
                 create_request_def case_prod_beta
           simp del: js_get.simps)

text \<open>
  Claim C3, as stated: after a successful response with \<open>approved\<close> false or omitted the
  message the server supplied is displayed. The code displays
  \<open>result.message || 'Comment submitted successfully!'\<close>: for the result
  \<open>{message: "", approved: false}\<close> it shows the built-in text, which is not what the
  server supplied.
\<close>

theorem empty_confirmation_counterexample:
  "ok response_empty_confirmation
   \<and> json response_empty_confirmation =
       Some (JObj [(''message'', JStr []), (''approved'', JBool False)])
   \<and> message (fst (submitComment demo_props demo_form ExecuteRejected
       (Resolved response_empty_confirmation) Rejected initial_state)) =
     JStr ''Comment submitted successfully!''
   \<and> message (fst (submitComment demo_props demo_form ExecuteRejected
       (Resolved response_empty_confirmation) Rejected initial_state)) \<noteq> JStr []"
  by (simp add: submitComment_in_flight [OF demo_begin] submitComment_resume_def ok_def
                response_empty_confirmation_def js_or_def submit_success_text_def)

text \<open>
  Claim C3, amended. For a submission that was sent and answered with a success status
  and a JSON object: the comment list is fetched again exactly once when the result's
  \<open>approved\<close> field is truthy (\<open>true\<close>), and not at all when it is \<open>false\<close> or omitted;
  the message displayed is the server's \<open>message\<close> when that is truthy (a non-empty
  string), and the built-in confirmation text otherwise. Both widgets behave so.
\<close>

theorem approved_refetch:
  assumes "submitComment_begin p f ex s = (s1, effs, True)"
    and "ok r" and "json r = Some (JObj result)"
  shows "refetches p (snd (submitComment p f ex (Resolved r) list_out s)) =
           (if js_truthy (js_field result ''approved'') then 1 else 0)
       \<and> vc_refetches p (snd (vc_submitComment p f' (Resolved r) list_out vs)) =
           (if js_truthy (js_field result ''approved'') then 1 else 0)
       \<and> message (fst (submitComment p f ex (Resolved r) list_out s)) =
           (if js_truthy (js_field result ''message'') then js_field result ''message''
            else JStr ''Comment submitted successfully!'')
       \<and> vc_message (fst (vc_submitComment p f' (Resolved r) list_out vs)) =
           (if js_truthy (js_field result ''message'') then js_field result ''message''
            else JStr ''Comment submitted successfully!'')"
proof -
  have effs: "filter (is_list_request p) effs = []"
    using begin_no_list_request [of p f ex s] assms(1) by simp
  have "refetches p (snd (submitComment p f ex (Resolved r) list_out s)) =
          refetches p (snd (submitComment_resume p (Resolved r) list_out s1))"
    by (simp add: submitComment_in_flight [OF assms(1)] refetches_def effs)
  then show ?thesis
    using resume_ok [OF assms(2,3), of p list_out s1]
          vc_submit_ok [OF assms(2,3), of p f' list_out vs]
    by (simp add: submitComment_in_flight [OF assms(1)] js_or_def submit_success_text_def)
qed

theorem approved_refetch_witness:
  "refetches demo_props (snd (submitComment demo_props demo_form ExecuteRejected
       (Resolved response_approved) (Resolved response_comments) initial_state)) = 1
   \<and> refetches demo_props (snd (submitComment demo_props demo_form ExecuteRejected
       (Resolved response_pending) (Resolved response_comments) initial_state)) = 0
   \<and> message (fst (submitComment demo_props demo_form ExecuteRejected
       (Resolved response_pending) (Resolved response_comments) initial_state)) =
       JStr ''Comment awaiting moderation''"
  using approved_refetch [OF demo_begin, of response_approved
          "[(''message'', JStr ''Comment posted''), (''approved'', JBool True)]"
          "Resolved response_comments" demo_vc_form vc_initial_state]
        approved_refetch [OF demo_begin, of response_pending
          "[(''message'', JStr ''Comment awaiting moderation'')]"
          "Resolved response_comments" demo_vc_form vc_initial_state]
  by (simp add: ok_def response_approved_def response_pending_def js_field_def)

subsection \<open>Rejected submissions\<close>

lemma resume_error:
  assumes "\<not> ok r" and "json r = Some body"
  shows "message (fst (submitComment_resume p (Resolved r) list_out s1)) =
           (case js_get body ''message'' of
              Inl e \<Rightarrow> JStr submit_error_text
            | Inr m \<Rightarrow> js_or m (JStr submit_error_text))"
    and "FormReset \<notin> set (snd (submitComment_resume p (Resolved r) list_out s1))"
    and "replyingTo (fst (submitComment_resume p (Resolved r) list_out s1)) = replyingTo s1"
  using assms
  by (auto simp: submitComment_resume_def submit_catch_def
           simp del: js_get.simps split: sum.splits)

lemma vc_submit_error:
  assumes "\<not> ok r" and "json r = Some body"
  shows "vc_message (fst (vc_submitComment p f (Resolved r) list_out vs)) =
           (case js_get body ''message'' of
              Inl e \<Rightarrow> JStr submit_error_text
            | Inr m \<Rightarrow> js_or m (JStr submit_error_text))"
    and "FormReset \<notin> set (snd (vc_submitComment p f (Resolved r) list_out vs))"
  using assms
  by (auto simp: vc_submitComment_def vc_submit_catch_def Let_def create_request_def
           simp del: js_get.simps split: sum.splits)

text \<open>
  Claim C4, as stated: a non-success response whose JSON body contains a \<open>message\<close> field
  displays that message verbatim. The code displays
  \<open>error.message || 'Error submitting comment. Please try again.'\<close>: the body
  \<open>{message: ""}\<close> contains the field, and what is displayed is the fallback text.
\<close>

theorem empty_error_message_counterexample:
  "\<not> ok response_empty_error
   \<and> json response_empty_error = Some (JObj [(''message'', JStr [])])
   \<and> message (fst (submitComment demo_props demo_form ExecuteRejected
       (Resolved response_empty_error) Rejected initial_state)) =
     JStr ''Error submitting comment. Please try again.''
   \<and> message (fst (submitComment demo_props demo_form ExecuteRejected
       (Resolved response_empty_error) Rejected initial_state)) \<noteq> JStr []"
  by (simp add: submitComment_in_flight [OF demo_begin] submitComment_resume_def ok_def
                response_empty_error_def js_or_def submit_error_text_def)

text \<open>
  Claim C4, amended. For a submission that was sent and answered with a non-success
  status and a JSON body: if the body is an object whose \<open>message\<close> field is truthy (a
  non-empty string), exactly that value is displayed; if the body has no truthy
  \<open>message\<close> (none at all, an empty one, or a body that is no object), the fallback text is
  displayed; the form is not reset and the reply target stays. Both widgets behave so.
\<close>

theorem server_error_message:
  assumes "submitComment_begin p f ex s = (s1, effs, True)"
    and "\<not> ok r" and "json r = Some body"
  shows "(\<forall>kvs m. body = JObj kvs \<and> map_of kvs ''message'' = Some m \<and> js_truthy m \<longrightarrow>
            message (fst (submitComment p f ex (Resolved r) list_out s)) = m
          \<and> vc_message (fst (vc_submitComment p f' (Resolved r) list_out vs)) = m)
       \<and> ((\<forall>kvs m. body = JObj kvs \<and> map_of kvs ''message'' = Some m \<longrightarrow> \<not> js_truthy m) \<longrightarrow>
            message (fst (submitComment p f ex (Resolved r) list_out s)) =
              JStr ''Error submitting comment. Please try again.''
          \<and> vc_message (fst (vc_submitComment p f' (Resolved r) list_out vs)) =
              JStr ''Error submitting comment. Please try again.'')
       \<and> FormReset \<notin> set (snd (submitComment p f ex (Resolved r) list_out s))
       \<and> FormReset \<notin> set (snd (vc_submitComment p f' (Resolved r) list_out vs))
       \<and> replyingTo (fst (submitComment p f ex (Resolved r) list_out s)) = replyingTo s"
proof -
  have nr: "FormReset \<notin> set effs"
    using begin_no_reset [of p f ex s] assms(1) by simp
  have s1: "replyingTo s1 = replyingTo s"
    using begin_in_flight_state [OF assms(1)] by simp
  note a = resume_error [OF assms(2,3), of p list_out s1]
  note b = vc_submit_error [OF assms(2,3), of p f' list_out vs]
  have msg: "message (fst (submitComment p f ex (Resolved r) list_out s)) =
           (case js_get body ''message'' of
              Inl e \<Rightarrow> JStr submit_error_text
            | Inr m \<Rightarrow> js_or m (JStr submit_error_text))"
    using a(1) by (simp add: submitComment_in_flight [OF assms(1)])
  have rest: "FormReset \<notin> set (snd (submitComment p f ex (Resolved r) list_out s))
       \<and> replyingTo (fst (submitComment p f ex (Resolved r) list_out s)) = replyingTo s"
    using a(2,3) nr s1 by (simp add: submitComment_in_flight [OF assms(1)])
  have truthy:
    "\<forall>kvs m. body = JObj kvs \<and> map_of kvs ''message'' = Some m \<and> js_truthy m \<longrightarrow>
            message (fst (submitComment p f ex (Resolved r) list_out s)) = m
          \<and> vc_message (fst (vc_submitComment p f' (Resolved r) list_out vs)) = m"
    using msg b(1) by (auto simp: js_or_def)
  have falsy:
    "(\<forall>kvs m. body = JObj kvs \<and> map_of kvs ''message'' = Some m \<longrightarrow> \<not> js_truthy m) \<longrightarrow>
            message (fst (submitComment p f ex (Resolved r) list_out s)) =
              JStr submit_error_text
          \<and> vc_message (fst (vc_submitComment p f' (Resolved r) list_out vs)) =
              JStr submit_error_text"
    unfolding msg b(1) by (cases body) (auto simp: js_or_def split: option.splits)
  show ?thesis
    using truthy falsy rest b(2) unfolding submit_error_text_def by blast
qed

theorem server_error_message_witness:
  "\<not> ok response_duplicate
   \<and> json response_duplicate = Some (JObj [(''message'', JStr ''Duplicate comment detected'')])
   \<and> message (fst (submitComment demo_props demo_form ExecuteRejected
       (Resolved response_duplicate) Rejected initial_state)) = JStr ''Duplicate comment detected''
   \<and> FormReset \<notin> set (snd (submitComment demo_props demo_form ExecuteRejected
       (Resolved response_duplicate) Rejected initial_state))"
  using server_error_message [OF demo_begin, of response_duplicate
          "JObj [(''message'', JStr ''Duplicate comment detected'')]" Rejected
          demo_vc_form vc_initial_state]
  by (simp add: ok_def response_duplicate_def)

text \<open>
  Claim C10. A submission that was sent and answered with a non-success status and a
  body that is not valid JSON: \<open>response.json()\<close> rejects, the \<open>catch\<close> block puts the
  fallback text into \<open>message\<close> and logs, \<open>submitting\<close> is lowered, nothing else changes
  and the form is not reset. The function returns a state on this path as on every
  other. Both widgets behave so.
\<close>

theorem unparsable_error_body:
  assumes "submitComment_begin p f ex s = (s1, effs, True)"
    and "\<not> ok r" and "json r = None"
  shows "submitComment p f ex (Resolved r) list_out s =
           (s\<lparr>submitting := False, message := JStr ''Error submitting comment. Please try again.''\<rparr>,
            effs @ [ConsoleError ''Submit error:'' [LogError SyntaxError]])
         \<and> FormReset \<notin> set (snd (submitComment p f ex (Resolved r) list_out s))
         \<and> vc_submitComment p f' (Resolved r) list_out vs =
           (vs\<lparr>vc_submitting := False,
               vc_message := JStr ''Error submitting comment. Please try again.''\<rparr>,
            [PreventDefault, create_request p (vc_commentData f'),
             ConsoleError ''Submit error:'' [LogError SyntaxError]])"
proof -
  have s1: "s1 = s\<lparr>submitting := True, message := JStr []\<rparr>"
    using assms(1) by (rule begin_in_flight_state)
  have nr: "FormReset \<notin> set effs"
    using begin_no_reset [of p f ex s] assms(1) by simp
  have r: "submitComment_resume p (Resolved r) list_out s1 =
        (s\<lparr>submitting := False, message := JStr submit_error_text\<rparr>,
         [ConsoleError ''Submit error:'' [LogError SyntaxError]])"
    using assms(2,3) by (simp add: submitComment_resume_def submit_catch_def s1)
  have full: "submitComment p f ex (Resolved r) list_out s =
           (s\<lparr>submitting := False, message := JStr submit_error_text\<rparr>,
            effs @ [ConsoleError ''Submit error:'' [LogError SyntaxError]])"
    by (simp add: submitComment_in_flight [OF assms(1)] r)
  have vc: "vc_submitComment p f' (Resolved r) list_out vs =
           (vs\<lparr>vc_submitting := False, vc_message := JStr submit_error_text\<rparr>,
            [PreventDefault, create_request p (vc_commentData f'),
             ConsoleError ''Submit error:'' [LogError SyntaxError]])"
    using assms(2,3) by (simp add: vc_submitComment_def vc_submit_catch_def Let_def)
  show ?thesis using full vc nr by (simp add: submit_error_text_def)
qed

theorem unparsable_error_body_witness:
  "\<not> ok response_html_error \<and> json response_html_error = None
   \<and> message (fst (submitComment demo_props demo_form ExecuteRejected
                     (Resolved response_html_error) Rejected initial_state))
     = JStr ''Error submitting comment. Please try again.''"
  using unparsable_error_body [OF demo_begin, of response_html_error Rejected
          demo_vc_form vc_initial_state]
  by (simp add: ok_def response_html_error_def)

subsection \<open>Loading the comments\<close>

text \<open>
  Claim C5. When the list request is rejected by the network or answered with a
  non-success status, \<open>fetchComments\<close> leaves the comment state as it was: the state
  afterwards is the state before with \<open>loading\<close> false, and what it did to the outside is
  the request followed by one log entry. Both widgets behave so.
\<close>

theorem failed_load_keeps_comments:
  assumes "fetch_failed out"
  shows "commentsData (fst (fetchComments p out s)) = commentsData s
         \<and> fst (fetchComments p out s) = s\<lparr>loading := False\<rparr>
         \<and> (\<exists>e. snd (fetchComments p out s) = [list_request p, e] \<and> is_log e)
         \<and> vc_comments (fst (vc_fetchComments p out vs)) = vc_comments vs
         \<and> fst (vc_fetchComments p out vs) = vs\<lparr>vc_loading := False\<rparr>
         \<and> (\<exists>e. snd (vc_fetchComments p out vs) = [vc_list_request p, e] \<and> is_log e)"
  using assms
  by (auto simp: fetch_failed_def fetchComments_def fetchComments_with_def list_request_def list_url_def vc_fetchComments_def Let_def is_log_def
           split: fetch_outcome.splits)

theorem failed_load_keeps_comments_witness:
  "fetch_failed (Resolved response_html_error)
   \<and> commentsData (fst (fetchComments demo_props (Resolved response_html_error)
        (initial_state\<lparr>commentsData := JObj [(''count'', JNum 1)]\<rparr>))) =
       JObj [(''count'', JNum 1)]"
  using failed_load_keeps_comments [of "Resolved response_html_error" demo_props
          "initial_state\<lparr>commentsData := JObj [(''count'', JNum 1)]\<rparr>" vc_initial_state]
  by (simp add: fetch_failed_def ok_def response_html_error_def)

text \<open>
  Claim C8, as stated: every request of \<open>fetchComments\<close> carries \<open>order=ASC\<close> or
  \<open>order=DESC\<close>. Line 83 upper-cases whatever the \<open>order\<close> prop holds, and the prop's
  validator only warns: with \<open>order="newest"\<close> the request asks for \<open>order=NEWEST\<close>.
\<close>

theorem unvalidated_order_counterexample:
  "snd (fetchComments newest_props (Resolved response_comments) initial_state) =
     [HttpGet ''https://example.org/wp-json/headless-comments/v1/posts/7/comments?order=NEWEST''
        [(''X-API-Key'', ''k'')]]
   \<and> orderParam newest_props \<noteq> ''ASC'' \<and> orderParam newest_props \<noteq> ''DESC''"
  by code_simp

text \<open>
  Claim C8, amended. For all props and whatever the case mapping \<open>up\<close> is: the request
  \<open>fetchComments\<close> sends is a GET of
  \<open>{endpoint}/wp-json/headless-comments/v1/posts/{post_id}/comments?order={orderParam}\<close>
  with the header \<open>X-API-Key\<close>, and nothing else is requested, the other effects being
  log entries; \<open>orderParam\<close> is the upper-cased order, \<open>DESC\<close> when the page passed an
  empty order, and the upper-cased default when it passed none, which is \<open>DESC\<close> as
  upper-casing leaves that word alone; it is \<open>ASC\<close> or \<open>DESC\<close> whenever the prop passes
  its validator.
\<close>

theorem list_request_shape:
  "(\<exists>rest. snd (fetchComments_with up p out s) =
            HttpGet (endpoint p @ ''/wp-json/headless-comments/v1/posts/''
                       @ post_id p @ ''/comments?order='' @ orderParam_with up p)
                    [(''X-API-Key'', api_key p)] # rest
            \<and> (\<forall>e\<in>set rest. is_log e))
   \<and> (order p = None \<and> up ''DESC'' = ''DESC'' \<longrightarrow> orderParam_with up p = ''DESC'')
   \<and> (order p = Some [] \<longrightarrow> orderParam_with up p = ''DESC'')
   \<and> (\<forall>v. order p = Some v \<and> v \<noteq> [] \<longrightarrow> orderParam_with up p = up v)
   \<and> (order_prop_valid_with up p \<longrightarrow>
         orderParam_with up p = ''ASC'' \<or> orderParam_with up p = ''DESC'')"
proof -
  have shape: "\<exists>rest. snd (fetchComments_with up p out s) =
            HttpGet (endpoint p @ ''/wp-json/headless-comments/v1/posts/''
                       @ post_id p @ ''/comments?order='' @ orderParam_with up p)
                    [(''X-API-Key'', api_key p)] # rest
            \<and> (\<forall>e\<in>set rest. is_log e)"
    by (simp add: fetchComments_with_def Let_def list_request_with_def list_url_with_def
                  comments_url_def api_root_def is_log_def
             split: fetch_outcome.splits option.splits)
  have dflt: "order p = None \<and> up ''DESC'' = ''DESC'' \<longrightarrow> orderParam_with up p = ''DESC''"
    by (simp add: orderParam_with_def props_order_def)
  have empty: "order p = Some [] \<longrightarrow> orderParam_with up p = ''DESC''"
    by (simp add: orderParam_with_def props_order_def)
  have upper: "\<forall>v. order p = Some v \<and> v \<noteq> [] \<longrightarrow> orderParam_with up p = up v"
    by (simp add: orderParam_with_def props_order_def)
  have valid: "order_prop_valid_with up p \<longrightarrow>
                 orderParam_with up p = ''ASC'' \<or> orderParam_with up p = ''DESC''"
  proof (cases "props_order p = []")
    case True
    then show ?thesis by (simp add: orderParam_with_def)
  next
    case False
    then show ?thesis
      by (auto simp: orderParam_with_def order_prop_valid_with_def order_validator_with_def)
  qed
  show ?thesis using shape dflt empty upper valid by blast
qed

theorem list_request_shape_witness:
  "toUpperCase ''DESC'' = ''DESC''
   \<and> order_prop_valid_with toUpperCase demo_props
   \<and> snd (fetchComments_with toUpperCase demo_props (Resolved response_comments) initial_state) =
       [HttpGet ''https://example.org/wp-json/headless-comments/v1/posts/7/comments?order=ASC''
          [(''X-API-Key'', ''k'')]]
   \<and> orderParam_with toUpperCase demo_props = ''ASC''
   \<and> order (demo_props\<lparr>order := None\<rparr>) = None
   \<and> orderParam_with toUpperCase (demo_props\<lparr>order := None\<rparr>) = ''DESC''"
proof -
  have v: "order_prop_valid_with toUpperCase demo_props" by code_simp
  have a: "orderParam_with toUpperCase demo_props = ''ASC''" by code_simp
  have r: "snd (fetchComments_with toUpperCase demo_props (Resolved response_comments)
               initial_state) =
       [HttpGet ''https://example.org/wp-json/headless-comments/v1/posts/7/comments?order=ASC''
          [(''X-API-Key'', ''k'')]]" by code_simp
  from v a r toUpperCase_DESC
       list_request_shape [of toUpperCase demo_props "Resolved response_comments"
         initial_state]
       list_request_shape [of toUpperCase "demo_props\<lparr>order := None\<rparr>"
         "Resolved response_comments" initial_state]
  show ?thesis by simp
qed

subsection \<open>Mounting\<close>

lemma config_effects:
  "\<exists>cfg. snd (fetchRecaptchaConfig p cfg_out ld s) = config_request p # cfg
      \<and> (\<forall>e\<in>set cfg. is_log e \<or> (\<exists>k. e = RecaptchaLoad k))"
  by (simp add: fetchRecaptchaConfig_def Let_def is_log_def config_error_def
           split: fetch_outcome.splits option.splits sum.splits load_outcome.splits)

lemma comments_effects:
  "\<exists>rest. snd (fetchComments p out s) = list_request p # rest \<and> (\<forall>e\<in>set rest. is_log e)"
  by (simp add: fetchComments_def fetchComments_with_def list_request_def list_url_def Let_def is_log_def split: fetch_outcome.splits option.splits)

lemma config_request_neq: "config_request p \<noteq> list_request p"
  by (simp add: config_request_def list_request_def list_request_with_def config_url_def list_url_def list_url_with_def
                comments_url_def api_root_def)

text \<open>
  Claim C7. On mount the effects come in two blocks that do not interleave: first the
  config request and whatever \<open>fetchRecaptchaConfig\<close> does after it (loading the
  reCAPTCHA library, logging), then the list request and the log entries of
  \<open>fetchComments\<close>. The list request is a different request from the config request, so
  it occurs only after the config block has ended.
\<close>

theorem mount_config_before_comments:
  "\<exists>cfg rest.
      snd (onMounted p cfg_out ld list_out s) = config_request p # cfg @ list_request p # rest
    \<and> snd (fetchRecaptchaConfig p cfg_out ld s) = config_request p # cfg
    \<and> snd (fetchComments p list_out (fst (fetchRecaptchaConfig p cfg_out ld s))) =
        list_request p # rest
    \<and> (\<forall>e\<in>set cfg. is_log e \<or> (\<exists>k. e = RecaptchaLoad k))
    \<and> (\<forall>e\<in>set rest. is_log e)
    \<and> config_request p \<noteq> list_request p"
proof -
  obtain cfg where cfg: "snd (fetchRecaptchaConfig p cfg_out ld s) = config_request p # cfg"
      "\<forall>e\<in>set cfg. is_log e \<or> (\<exists>k. e = RecaptchaLoad k)"
    using config_effects by blast
  obtain rest where rest:
      "snd (fetchComments p list_out (fst (fetchRecaptchaConfig p cfg_out ld s))) =
         list_request p # rest"
      "\<forall>e\<in>set rest. is_log e"
    using comments_effects by blast
  have "snd (onMounted p cfg_out ld list_out s) =
          config_request p # cfg @ list_request p # rest"
    using cfg(1) rest(1) by (auto simp: onMounted_def split: prod.splits)
  with cfg rest config_request_neq show ?thesis by blast
qed

theorem mount_config_before_comments_witness:
  "snd (onMounted demo_props (Resolved response_config_enabled) LoadRejected
          (Resolved response_comments) initial_state) =
     [config_request demo_props, RecaptchaLoad (JStr ''site''),
      ConsoleError ''Error loading reCAPTCHA:'' [LogError RecaptchaFailure],
      list_request demo_props]"
  using mount_config_before_comments [of demo_props "Resolved response_config_enabled"
          LoadRejected "Resolved response_comments" initial_state]
  by (simp add: onMounted_def fetchRecaptchaConfig_def fetchComments_def fetchComments_with_def list_request_def list_url_def ok_def
                response_comments_def response_config_enabled_def Let_def)

subsection \<open>Reply tracking\<close>

lemma activate_sent_parent:
  assumes "activate_submit p v ex s = (s1, effs, True)"
  shows "sent_parent effs = Some (JStr (comment_parent_value s))"
proof -
  have ne: "comment_parent_value s \<noteq> []"
    by (simp add: comment_parent_value_def string_of_int_0 split: option.splits)
  have beg: "submitComment_begin p (commentform p s v) ex s = (s1, effs, True)"
    using assms by (simp add: activate_submit_def split: if_splits)
  show ?thesis
    using ne by (simp add: begin_sent_parent [OF beg] commentform_def formData_get_def js_or_def)
qed

lemma demo_reply_submit:
  "activate_submit demo_props demo_input ExecuteRejected
      (fst (handleReplyClick demo_link initial_state)) =
    (initial_state\<lparr>replyingTo := Some \<lparr> id' = ''42'', replyTo = ''Reply to Jane'' \<rparr>,
                   submitting := True, message := JStr []\<rparr>,
     [PreventDefault,
      create_request demo_props
        [(''author_name'', JStr ''Jane''), (''author_email'', JStr ''jane@example.org''),
         (''content'', JStr ''Hello''), (''parent'', JStr ''42'')]], True)"
  by (simp add: activate_submit_def submit_disabled_def handleReplyClick_def demo_link_def
        initial_state_def submitComment_begin_def finished_def Let_def commentData_def commentform_def
        formData_get_def js_or_def comment_parent_value_def demo_input_def)

lemma demo_cancel_submit:
  "activate_submit demo_props demo_input ExecuteRejected
      (cancelReply (fst (handleReplyClick demo_link initial_state))) =
    (initial_state\<lparr>submitting := True, message := JStr []\<rparr>,
     [PreventDefault,
      create_request demo_props
        [(''author_name'', JStr ''Jane''), (''author_email'', JStr ''jane@example.org''),
         (''content'', JStr ''Hello''), (''parent'', JStr ''0'')]], True)"
  by (simp add: activate_submit_def submit_disabled_def handleReplyClick_def demo_link_def
        cancelReply_def initial_state_def submitComment_begin_def finished_def Let_def commentData_def
        commentform_def formData_get_def js_or_def comment_parent_value_def demo_input_def
        string_of_int_0)

text \<open>
  Claim C6, as stated: after cancel the next submission's parent field equals the number
  0. The hidden input is bound to \<open>replyingTo?.id || 0\<close>, and an input holds text: the
  form entry is the string \<open>0\<close>, which is not empty, so \<open>formData.get('comment_parent') || 0\<close>
  keeps the string. The request carries the parent \<open>"0"\<close>, a string as \<open>"42"\<close> was, not
  the number.
\<close>

theorem cancelled_parent_counterexample:
  "sent_parent (fst (snd (activate_submit demo_props demo_input ExecuteRejected
       (cancelReply (fst (handleReplyClick demo_link initial_state)))))) = Some (JStr ''0'')
   \<and> sent_parent (fst (snd (activate_submit demo_props demo_input ExecuteRejected
       (cancelReply (fst (handleReplyClick demo_link initial_state)))))) \<noteq> Some (JNum 0)"
  by (simp add: demo_cancel_submit sent_parent_def create_request_def)

text \<open>
  Claim C6, amended. A click on a reply link with comment id \<open>42\<close> and label
  \<open>Reply to Jane\<close> makes the reply target \<open>{id: "42", replyTo: "Reply to Jane"}\<close>, and a
  submission sent from that state carries the parent \<open>"42"\<close>; cancel clears the reply
  target, and a submission sent after it carries the parent \<open>"0"\<close>, the text of the
  hidden input.
\<close>

theorem reply_target_parent:
  assumes "data_commentid link = Some ''42''" and "data_replyto link = Some ''Reply to Jane''"
    and "activate_submit p v ex (fst (handleReplyClick link s)) = (s1, effs1, True)"
    and "activate_submit p v' ex' (cancelReply (fst (handleReplyClick link s))) =
           (s2, effs2, True)"
  shows "replyingTo (fst (handleReplyClick link s)) =
           Some \<lparr> id' = ''42'', replyTo = ''Reply to Jane'' \<rparr>
       \<and> sent_parent effs1 = Some (JStr ''42'')
       \<and> replyingTo (cancelReply (fst (handleReplyClick link s))) = None
       \<and> sent_parent effs2 = Some (JStr ''0'')"
proof -
  have r: "replyingTo (fst (handleReplyClick link s)) =
           Some \<lparr> id' = ''42'', replyTo = ''Reply to Jane'' \<rparr>"
    using assms(1,2) by (simp add: handleReplyClick_def)
  have c: "replyingTo (cancelReply (fst (handleReplyClick link s))) = None"
    by (simp add: cancelReply_def)
  have p1: "comment_parent_value (fst (handleReplyClick link s)) = ''42''"
    using r by (simp add: comment_parent_value_def)
  have p2: "comment_parent_value (cancelReply (fst (handleReplyClick link s))) = ''0''"
    using c by (simp add: comment_parent_value_def string_of_int_0)
  show ?thesis
    using r c activate_sent_parent [OF assms(3)] activate_sent_parent [OF assms(4)] p1 p2
    by simp
qed

theorem reply_target_parent_witness:
  "data_commentid demo_link = Some ''42'' \<and> data_replyto demo_link = Some ''Reply to Jane''
   \<and> replyingTo (fst (handleReplyClick demo_link initial_state)) =
           Some \<lparr> id' = ''42'', replyTo = ''Reply to Jane'' \<rparr>
   \<and> sent_parent (fst (snd (activate_submit demo_props demo_input ExecuteRejected
         (fst (handleReplyClick demo_link initial_state))))) = Some (JStr ''42'')"
proof -
  have l: "data_commentid demo_link = Some ''42''"
      "data_replyto demo_link = Some ''Reply to Jane''"
    by (simp_all add: demo_link_def)
  from reply_target_parent [OF l demo_reply_submit demo_cancel_submit] l
  show ?thesis by (simp add: demo_reply_submit sent_parent_def create_request_def)
qed

subsection \<open>The busy flags\<close>

text \<open>
  Claim C9. Whatever the network answers, \<open>fetchComments\<close> ends with \<open>loading\<close> false and
  \<open>submitComment\<close> ends with \<open>submitting\<close> false: on success, on a non-success response,
  on a rejected request and on a body that does not parse. The functions are total over
  every outcome, so this covers every invocation that completes; it holds in both
  widgets, and for \<open>submitComment\<close> also when the token gate stops it.
\<close>

theorem busy_flags_lowered:
  "\<not> loading (fst (fetchComments p out s))
   \<and> \<not> submitting (fst (submitComment p f ex post_out list_out s))
   \<and> \<not> vc_loading (fst (vc_fetchComments p out vs))
   \<and> \<not> vc_submitting (fst (vc_submitComment p f' post_out list_out vs))"
  by (simp add: fetchComments_loading submitComment_submitting vc_fetchComments_loading
                vc_submitComment_submitting)

theorem busy_flags_lowered_witness:
  "\<not> loading (fst (fetchComments demo_props Rejected initial_state))
   \<and> \<not> submitting (fst (submitComment demo_props demo_form ExecuteRejected
                          (Resolved response_html_error) Rejected initial_state))
   \<and> \<not> vc_loading (fst (vc_fetchComments demo_props Rejected vc_initial_state))
   \<and> \<not> vc_submitting (fst (vc_submitComment demo_props demo_vc_form
                             (Resolved response_html_error) Rejected vc_initial_state))"
  using busy_flags_lowered [of demo_props Rejected initial_state demo_form ExecuteRejected
          "Resolved response_html_error" Rejected vc_initial_state demo_vc_form]
  by simp

end
